theory Spec2Isabelle
  imports Complex_Main
begin

section \<open>Data model of main.py\<close>

text \<open>
  \<^verbatim>\<open>class BoardSize\<close>: three integer attributes, with the defaults of the
  constructor's signature (width 200, height 800, thickness 16).
\<close>

record BoardSize =
  width :: int
  height :: int
  thickness :: int

definition BoardSize_default :: BoardSize where
  "BoardSize_default = \<lparr>width = 200, height = 800, thickness = 16\<rparr>"

text \<open>
  \<^verbatim>\<open>class QltMachineRow\<close>: the attributes that \<^verbatim>\<open>__init__\<close> assigns. The
  constructor stores \<^verbatim>\<open>x\<close>, \<^verbatim>\<open>y\<close> and \<^verbatim>\<open>z\<close> only inside the list
  \<^verbatim>\<open>self.coordinates\<close>; there is no attribute of their own.
\<close>

record QltMachineRow =
  coordinates :: "string list"
  use :: string
  layer :: string
  diam :: string
  depth :: string
  rep_qty :: string
  repx :: string
  repy :: string

section \<open>The string methods used by calculate\_coordinates\<close>

definition dquote :: char where
  "dquote = CHR 0x22"

text \<open>\<^verbatim>\<open>str(n)\<close> for a Python int: decimal digits, a minus sign for negatives.\<close>

fun digits :: "nat \<Rightarrow> string" where
  "digits n = (if n < 10 then [''0123456789'' ! n]
               else digits (n div 10) @ [''0123456789'' ! (n mod 10)])"

declare digits.simps [simp del]

definition py_str :: "int \<Rightarrow> string" where
  "py_str i = (if i < 0 then CHR ''-'' # digits (nat (- i)) else digits (nat i))"

text \<open>
  \<^verbatim>\<open>s.replace(old, new)\<close>: every non-overlapping occurrence of \<^verbatim>\<open>old\<close>, found
  from the left, is replaced. With an empty \<^verbatim>\<open>old\<close> Python puts \<^verbatim>\<open>new\<close>
  before every character and at the end.
\<close>

function replace :: "string \<Rightarrow> string \<Rightarrow> string \<Rightarrow> string" where
  "replace old new [] = (if old = [] then new else [])"
| "replace old new (c # cs) =
     (if old = [] then new @ c # replace old new cs
      else if take (length old) (c # cs) = old
           then new @ replace old new (drop (length old) (c # cs))
           else c # replace old new cs)"
  by pat_completeness auto
termination
  by (relation "measure (\<lambda>(old, new, s). length s)") (auto simp: neq_Nil_conv)

text \<open>\<^verbatim>\<open>s.strip(chars)\<close>: leading and trailing characters of \<^verbatim>\<open>chars\<close> removed.\<close>

definition strip :: "string \<Rightarrow> string \<Rightarrow> string" where
  "strip chars s =
     rev (dropWhile (\<lambda>c. c \<in> set chars) (rev (dropWhile (\<lambda>c. c \<in> set chars) s)))"

text \<open>Lines 80 to 84: the three replacements in their order, then the strip.\<close>

definition substitute :: "BoardSize \<Rightarrow> string \<Rightarrow> string" where
  "substitute panel coord_expr =
     strip [dquote]
       (replace ''Dim3'' (py_str (thickness panel))
         (replace ''Dim2'' (py_str (width panel))
           (replace ''Dim1'' (py_str (height panel)) coord_expr)))"

section \<open>calculate\_coordinates\<close>

text \<open>
  The method's variables. \<^verbatim>\<open>self\<close> and \<^verbatim>\<open>panel\<close> are the two arguments,
  \<^verbatim>\<open>results\<close> and \<^verbatim>\<open>current_triplet\<close> the two local lists, and
  \<^verbatim>\<open>stdout\<close> collects the lines written by \<^verbatim>\<open>print\<close>.

  The builtin \<^verbatim>\<open>eval\<close> is the parameter \<open>ev\<close>: it maps the text to \<open>Inr v\<close>
  when the evaluation returns \<open>v\<close>, and to \<open>Inl m\<close> when it raises an exception
  whose text \<^verbatim>\<open>str(e)\<close> is \<open>m\<close>. The evaluated text is taken to have no effect
  on the variables of the method.
\<close>

record 'v frame =
  self :: QltMachineRow
  panel :: BoardSize
  results :: "'v list list"
  current_triplet :: "'v list"
  stdout :: "string list"

definition error_line :: "string \<Rightarrow> string \<Rightarrow> string" where
  "error_line coord_expr e = ''Error evaluating expression '' @ [CHR 0x27] @ coord_expr
     @ [CHR 0x27] @ '': '' @ e"

definition loop_body :: "(string \<Rightarrow> string + 'v) \<Rightarrow> 'v frame \<Rightarrow> string \<Rightarrow> 'v frame" where
  "loop_body ev f coord_expr =
     (if coord_expr = [] then f
      else
        let f1 = f\<lparr>stdout := stdout f @ [coord_expr]\<rparr>;
            coord_expr' = substitute (panel f1) coord_expr
        in case ev coord_expr' of
             Inl e \<Rightarrow> f1\<lparr>stdout := stdout f1 @ [error_line coord_expr' e]\<rparr>
           | Inr calculated_value \<Rightarrow>
               let t = current_triplet f1 @ [calculated_value]
               in if length t = 3
                  then f1\<lparr>results := results f1 @ [t], current_triplet := []\<rparr>
                  else f1\<lparr>current_triplet := t\<rparr>)"

primrec for_loop :: "(string \<Rightarrow> string + 'v) \<Rightarrow> 'v frame \<Rightarrow> string list \<Rightarrow> 'v frame" where
  "for_loop ev f [] = f"
| "for_loop ev f (coord_expr # rest) = for_loop ev (loop_body ev f coord_expr) rest"

definition entry :: "QltMachineRow \<Rightarrow> BoardSize \<Rightarrow> 'v frame" where
  "entry row board =
     \<lparr>self = row, panel = board, results = [], current_triplet = [], stdout = []\<rparr>"

definition run :: "(string \<Rightarrow> string + 'v) \<Rightarrow> QltMachineRow \<Rightarrow> BoardSize \<Rightarrow> 'v frame" where
  "run ev row board = for_loop ev (entry row board) (coordinates row)"

definition calculate_coordinates ::
  "(string \<Rightarrow> string + 'v) \<Rightarrow> QltMachineRow \<Rightarrow> BoardSize \<Rightarrow> 'v list list" where
  "calculate_coordinates ev row board = results (run ev row board)"

text \<open>The values that the expressions of a row resolve to, in the row's order.\<close>

definition resolved :: "(string \<Rightarrow> string + 'v) \<Rightarrow> BoardSize \<Rightarrow> string list \<Rightarrow> 'v list" where
  "resolved ev board exprs =
     concat (map (\<lambda>e. if e = [] then []
                      else case ev (substitute board e) of Inl m \<Rightarrow> [] | Inr v \<Rightarrow> [v]) exprs)"

section \<open>The builtin eval on arithmetic text\<close>

text \<open>
  What \<^verbatim>\<open>eval\<close> does is fixed by the Python language, not by this repository.
  The part of it written out here is the arithmetic of integer literals: the tokens are
  decimal integers, \<^verbatim>\<open>+ - * / // % **\<close>, parentheses and spaces; the grammar is
  Python's (\<^verbatim>\<open>**\<close> binds tighter than a sign on its left and associates to the
  right, the multiplicative operators bind tighter than the additive ones, both
  associate to the left). Every other text has the outcome \<open>Unmodelled\<close>, which
  says nothing about what Python does with it.

  A float is produced only where binary64 arithmetic is exact: \<open>PyFloat n\<close> is the
  float whose value is the integer \<open>n\<close>, with \<open>\<bar>n\<bar> \<le> 2^53\<close> (the two zeros of
  binary64 are one value here). A result that would need rounding is \<open>Unmodelled\<close>.
  Integers are unbounded; the interpreter's limits on the length of a literal, on the
  depth of nesting and on memory are not part of the model.
\<close>

datatype pyval = PyInt int | PyFloat int

datatype pyexc = ZeroDivisionError

datatype outcome = Returns pyval | Raises pyexc | Unmodelled

datatype operator = Add | Sub | Mult | Div | FloorDiv | Mod | Pow

datatype unaryop = UAdd | USub

datatype expr =
    Constant nat
  | UnaryOp unaryop expr
  | BinOp expr operator expr

datatype token =
    NUM nat | PLUS | MINUS | STAR | SLASH | DOUBLESLASH | PERCENT | DOUBLESTAR | LPAR | RPAR

definition is_digit :: "char \<Rightarrow> bool" where
  "is_digit c = (c \<in> set ''0123456789'')"

definition digit_val :: "char \<Rightarrow> nat" where
  "digit_val c = of_char c - 48"

definition nat_of_digits :: "string \<Rightarrow> nat" where
  "nat_of_digits ds = foldl (\<lambda>a c. 10 * a + digit_val c) 0 ds"

text \<open>
  A decimal integer literal has no leading zero, unless all its digits are zeros.
\<close>

definition decimal_ok :: "string \<Rightarrow> bool" where
  "decimal_ok ds = (ds \<noteq> [] \<and> (hd ds \<noteq> CHR ''0'' \<or> list_all (\<lambda>c. c = CHR ''0'') ds))"

function lex :: "string \<Rightarrow> token list option" where
  "lex [] = Some []"
| "lex (c # cs) =
     (if c = CHR '' '' then lex cs
      else if is_digit c then
        (if decimal_ok (c # takeWhile is_digit cs)
         then map_option (Cons (NUM (nat_of_digits (c # takeWhile is_digit cs))))
                (lex (dropWhile is_digit cs))
         else None)
      else if c = CHR ''+'' then map_option (Cons PLUS) (lex cs)
      else if c = CHR ''-'' then map_option (Cons MINUS) (lex cs)
      else if c = CHR ''%'' then map_option (Cons PERCENT) (lex cs)
      else if c = CHR ''('' then map_option (Cons LPAR) (lex cs)
      else if c = CHR '')'' then map_option (Cons RPAR) (lex cs)
      else if c = CHR ''*'' then
        (if cs \<noteq> [] \<and> hd cs = CHR ''*'' then map_option (Cons DOUBLESTAR) (lex (tl cs))
         else map_option (Cons STAR) (lex cs))
      else if c = CHR ''/'' then
        (if cs \<noteq> [] \<and> hd cs = CHR ''/'' then map_option (Cons DOUBLESLASH) (lex (tl cs))
         else map_option (Cons SLASH) (lex cs))
      else None)"
  by pat_completeness auto
termination
  by (relation "measure length")
     (auto simp: less_Suc_eq_le length_dropWhile_le intro: le_trans [OF _ le_SucI])

text \<open>
  The parser keeps a stack of pending operators and a stack of finished subtrees.
  \<open>SParen\<close> marks an open parenthesis.
\<close>

datatype pending = SBin operator | SUn unaryop | SParen

fun binary_of :: "token \<Rightarrow> operator option" where
  "binary_of PLUS = Some Add"
| "binary_of MINUS = Some Sub"
| "binary_of STAR = Some Mult"
| "binary_of SLASH = Some Div"
| "binary_of DOUBLESLASH = Some FloorDiv"
| "binary_of PERCENT = Some Mod"
| "binary_of DOUBLESTAR = Some Pow"
| "binary_of _ = None"

fun level :: "operator \<Rightarrow> nat" where
  "level Add = 1"
| "level Sub = 1"
| "level Pow = 4"
| "level _ = 2"

fun binds :: "pending \<Rightarrow> nat" where
  "binds (SBin b) = level b"
| "binds (SUn u) = 3"
| "binds SParen = 0"

text \<open>
  Whether a pending operator is applied before the binary operator \<open>b\<close> is pushed.
\<close>

definition yields_to :: "operator \<Rightarrow> pending \<Rightarrow> bool" where
  "yields_to b s = (s \<noteq> SParen \<and> (level b < binds s \<or> (level b = binds s \<and> b \<noteq> Pow)))"

fun build :: "pending \<Rightarrow> expr list \<Rightarrow> expr list option" where
  "build (SBin b) (r # l # out) = Some (BinOp l b r # out)"
| "build (SUn u) (x # out) = Some (UnaryOp u x # out)"
| "build _ _ = None"

fun reduce :: "(pending \<Rightarrow> bool) \<Rightarrow> pending list \<Rightarrow> expr list
    \<Rightarrow> (pending list \<times> expr list) option" where
  "reduce p [] out = Some ([], out)"
| "reduce p (s # ops) out =
     (if p s then (case build s out of None \<Rightarrow> None | Some out' \<Rightarrow> reduce p ops out')
      else Some (s # ops, out))"

text \<open>
  \<open>shunt ts operand ops out\<close>: \<open>operand\<close> says that the next token must start an
  operand.
\<close>

fun shunt :: "token list \<Rightarrow> bool \<Rightarrow> pending list \<Rightarrow> expr list \<Rightarrow> expr option" where
  "shunt [] operand ops out =
     (if operand then None
      else case reduce (\<lambda>s. s \<noteq> SParen) ops out of
             Some ([], [e]) \<Rightarrow> Some e
           | _ \<Rightarrow> None)"
| "shunt (t # ts) True ops out =
     (case t of
        NUM n \<Rightarrow> shunt ts False ops (Constant n # out)
      | LPAR \<Rightarrow> shunt ts True (SParen # ops) out
      | MINUS \<Rightarrow> shunt ts True (SUn USub # ops) out
      | PLUS \<Rightarrow> shunt ts True (SUn UAdd # ops) out
      | _ \<Rightarrow> None)"
| "shunt (t # ts) False ops out =
     (if t = RPAR then
        (case reduce (\<lambda>s. s \<noteq> SParen) ops out of
           Some (SParen # ops', out') \<Rightarrow> shunt ts False ops' out'
         | _ \<Rightarrow> None)
      else
        (case binary_of t of
           None \<Rightarrow> None
         | Some b \<Rightarrow>
             (case reduce (yields_to b) ops out of
                None \<Rightarrow> None
              | Some (ops', out') \<Rightarrow> shunt ts True (SBin b # ops') out')))"

definition parse :: "string \<Rightarrow> expr option" where
  "parse s = (case lex s of None \<Rightarrow> None | Some ts \<Rightarrow> shunt ts True [] [])"

text \<open>The integers that a float holds exactly.\<close>

definition exact :: "int \<Rightarrow> bool" where
  "exact i = (\<bar>i\<bar> \<le> 2 ^ 53)"

fun as_float :: "pyval \<Rightarrow> int option" where
  "as_float (PyFloat x) = Some x"
| "as_float (PyInt i) = (if exact i then Some i else None)"

definition float_result :: "int \<Rightarrow> outcome" where
  "float_result r = (if exact r then Returns (PyFloat r) else Unmodelled)"

text \<open>
  True division of two ints returns the correctly rounded quotient, so it is exact when
  the divisor divides the dividend and the quotient is a float.
\<close>

definition float_op :: "operator \<Rightarrow> int \<Rightarrow> int \<Rightarrow> outcome" where
  "float_op b x y =
     (case b of
        Add \<Rightarrow> float_result (x + y)
      | Sub \<Rightarrow> float_result (x - y)
      | Mult \<Rightarrow> float_result (x * y)
      | Div \<Rightarrow> (if y = 0 then Raises ZeroDivisionError
                else if y dvd x then float_result (x div y) else Unmodelled)
      | _ \<Rightarrow> Unmodelled)"

fun eval_binop :: "operator \<Rightarrow> pyval \<Rightarrow> pyval \<Rightarrow> outcome" where
  "eval_binop b (PyInt x) (PyInt y) =
     (case b of
        Add \<Rightarrow> Returns (PyInt (x + y))
      | Sub \<Rightarrow> Returns (PyInt (x - y))
      | Mult \<Rightarrow> Returns (PyInt (x * y))
      | Div \<Rightarrow> (if y = 0 then Raises ZeroDivisionError
                else if y dvd x then float_result (x div y) else Unmodelled)
      | FloorDiv \<Rightarrow> (if y = 0 then Raises ZeroDivisionError else Returns (PyInt (x div y)))
      | Mod \<Rightarrow> (if y = 0 then Raises ZeroDivisionError else Returns (PyInt (x mod y)))
      | Pow \<Rightarrow> (if 0 \<le> y then Returns (PyInt (x ^ nat y)) else Unmodelled))"
| "eval_binop b v w =
     (case (as_float v, as_float w) of
        (Some x, Some y) \<Rightarrow> float_op b x y
      | _ \<Rightarrow> Unmodelled)"

fun eval_unaryop :: "unaryop \<Rightarrow> pyval \<Rightarrow> pyval" where
  "eval_unaryop UAdd v = v"
| "eval_unaryop USub (PyInt i) = PyInt (- i)"
| "eval_unaryop USub (PyFloat x) = PyFloat (- x)"

text \<open>The operands are evaluated from left to right, then the operator is applied.\<close>

fun eval_expr :: "expr \<Rightarrow> outcome" where
  "eval_expr (Constant n) = Returns (PyInt (int n))"
| "eval_expr (UnaryOp u x) =
     (case eval_expr x of Returns v \<Rightarrow> Returns (eval_unaryop u v) | other \<Rightarrow> other)"
| "eval_expr (BinOp l b r) =
     (case eval_expr l of
        Returns v \<Rightarrow> (case eval_expr r of Returns w \<Rightarrow> eval_binop b v w | other \<Rightarrow> other)
      | other \<Rightarrow> other)"

definition py_eval :: "string \<Rightarrow> outcome" where
  "py_eval s = (case parse s of None \<Rightarrow> Unmodelled | Some e \<Rightarrow> eval_expr e)"

text \<open>
  \<open>extends_py_eval ev\<close>: the evaluator \<open>ev\<close> does what \<open>py_eval\<close> says wherever
  \<open>py_eval\<close> says something.
\<close>

definition extends_py_eval :: "(string \<Rightarrow> string + pyval) \<Rightarrow> bool" where
  "extends_py_eval ev =
     (\<forall>s. case py_eval s of
            Returns v \<Rightarrow> ev s = Inr v
          | Raises x \<Rightarrow> isl (ev s)
          | Unmodelled \<Rightarrow> True)"

text \<open>
  An evaluator that extends \<open>py_eval\<close>, to run the method on rows whose texts
  \<open>py_eval\<close> covers. On a text outside the model it answers with an error. The text
  of ZeroDivisionError is the one of \<^verbatim>\<open>1/0\<close>; the other operators have texts of
  their own, and nothing below depends on them.
\<close>

definition known_eval :: "string \<Rightarrow> string + pyval" where
  "known_eval s =
     (case py_eval s of
        Returns v \<Rightarrow> Inr v
      | Raises x \<Rightarrow> Inl ''division by zero''
      | Unmodelled \<Rightarrow> Inl ''outside the model'')"



section \<open>The constructor and the representation of QltMachineRow\<close>

datatype error = TypeError | AttributeError string

text \<open>
  \<^verbatim>\<open>QltMachineRow(*args)\<close>: ten positional parameters and a variadic rest. With
  fewer than ten arguments the call raises TypeError. The body appends \<^verbatim>\<open>x\<close>,
  \<^verbatim>\<open>y\<close>, \<^verbatim>\<open>z\<close> and then, in a loop, each additional argument.
\<close>

fun QltMachineRow_init :: "string list \<Rightarrow> error + QltMachineRow" where
  "QltMachineRow_init
     (a_use # a_layer # a_diam # a_depth # x # y # a_rep_qty # a_repx # a_repy # z
        # additional_coordinates) =
     Inr \<lparr>coordinates = foldl (\<lambda>cs coords. cs @ [coords]) ([] @ [x] @ [y] @ [z])
                           additional_coordinates,
          use = a_use, layer = a_layer, diam = a_diam, depth = a_depth,
          rep_qty = a_rep_qty, repx = a_repx, repy = a_repy\<rparr>"
| "QltMachineRow_init _ = Inl TypeError"

text \<open>
  Attribute lookup on an instance: the names that \<^verbatim>\<open>__init__\<close> has assigned, then
  the methods of the class. The attributes that every object inherits (their names
  begin and end with two underscores) are left out; \<^verbatim>\<open>__repr__\<close> reads none.
\<close>

datatype attr = Str string | StrList "string list" | Method string

definition instance_dict :: "QltMachineRow \<Rightarrow> string \<rightharpoonup> attr" where
  "instance_dict r =
     [''coordinates'' \<mapsto> StrList (coordinates r),
      ''use'' \<mapsto> Str (use r),
      ''layer'' \<mapsto> Str (layer r),
      ''diam'' \<mapsto> Str (diam r),
      ''depth'' \<mapsto> Str (depth r),
      ''rep_qty'' \<mapsto> Str (rep_qty r),
      ''repx'' \<mapsto> Str (repx r),
      ''repy'' \<mapsto> Str (repy r)]"

definition class_methods :: "string list" where
  "class_methods = [''calculate_coordinates'', ''pack_coordinate'']"

definition getattr :: "QltMachineRow \<Rightarrow> string \<Rightarrow> error + attr" where
  "getattr r name =
     (case instance_dict r name of
        Some v \<Rightarrow> Inr v
      | None \<Rightarrow> if name \<in> set class_methods then Inr (Method name)
                else Inl (AttributeError name))"

text \<open>
  The text of a value inside an f-string. A string stands for itself; a list of plain
  strings (no quote, no backslash, no control character) is shown with its items in
  single quotes.
\<close>

fun format_value :: "attr \<Rightarrow> string" where
  "format_value (Str s) = s"
| "format_value (StrList l) =
     ''['' @ concat (map (\<lambda>i. (if i = 0 then [] else '', '') @ [CHR 0x27] @ l ! i @ [CHR 0x27])
                       [0 ..< length l]) @ '']''"
| "format_value (Method name) = ''<bound method QltMachineRow.'' @ name @ ''>''"

text \<open>
  \<^verbatim>\<open>__repr__\<close>: the f-string reads \<^verbatim>\<open>self.use\<close>, \<^verbatim>\<open>self.layer\<close>,
  \<^verbatim>\<open>self.diam\<close>, \<^verbatim>\<open>self.depth\<close> and \<^verbatim>\<open>self.x\<close>, in this order.
\<close>

definition repr :: "QltMachineRow \<Rightarrow> error + string" where
  "repr r =
     (case getattr r ''use'' of Inl e \<Rightarrow> Inl e | Inr a_use \<Rightarrow>
      case getattr r ''layer'' of Inl e \<Rightarrow> Inl e | Inr a_layer \<Rightarrow>
      case getattr r ''diam'' of Inl e \<Rightarrow> Inl e | Inr a_diam \<Rightarrow>
      case getattr r ''depth'' of Inl e \<Rightarrow> Inl e | Inr a_depth \<Rightarrow>
      case getattr r ''x'' of Inl e \<Rightarrow> Inl e | Inr a_x \<Rightarrow>
        Inr (''QltMachineRow(use='' @ format_value a_use @ '', layer='' @ format_value a_layer
             @ '', diam='' @ format_value a_diam @ '', depth='' @ format_value a_depth
             @ '', first_coordinate='' @ format_value a_x @ '')''))"

section \<open>decode\_tsv and the decoding loop of main\<close>

text \<open>
  \<^verbatim>\<open>decode_tsv\<close>: the argument is the sequence of rows that \<^verbatim>\<open>csv.reader\<close>
  yields for the file, one per line, an empty line giving the empty row.
\<close>

definition decode_tsv :: "string list list \<Rightarrow> string list list" where
  "decode_tsv reader = filter (\<lambda>row. row \<noteq> []) reader"

text \<open>
  Lines 127 to 137. \<^verbatim>\<open>reports\<close> holds, for each line printed by the handler, the
  index of the row and the exception.
\<close>

record main_state =
  qlt_rows :: "QltMachineRow list"
  reports :: "(nat \<times> error) list"

definition decode_body :: "main_state \<Rightarrow> nat \<Rightarrow> string list \<Rightarrow> main_state" where
  "decode_body st i row =
     (if i < 4 \<or> length row < 10 then st
      else case QltMachineRow_init (drop 1 row) of
             Inr qlt_row \<Rightarrow> st\<lparr>qlt_rows := qlt_rows st @ [qlt_row]\<rparr>
           | Inl e \<Rightarrow> st\<lparr>reports := reports st @ [(i, e)]\<rparr>)"

primrec decode_loop :: "main_state \<Rightarrow> nat \<Rightarrow> string list list \<Rightarrow> main_state" where
  "decode_loop st i [] = st"
| "decode_loop st i (row # rest) = decode_loop (decode_body st i row) (Suc i) rest"

definition decode :: "string list list \<Rightarrow> main_state" where
  "decode decoded_data = decode_loop \<lparr>qlt_rows = [], reports = []\<rparr> 0 decoded_data"

text \<open>The record that an accepted raw row is mapped to, column by column.\<close>

definition row_of_columns :: "string list \<Rightarrow> QltMachineRow" where
  "row_of_columns row =
     \<lparr>coordinates = [row ! 5, row ! 6, row ! 10] @ drop 11 row,
      use = row ! 1, layer = row ! 2, diam = row ! 3, depth = row ! 4,
      rep_qty = row ! 7, repx = row ! 8, repy = row ! 9\<rparr>"

text \<open>
  The lines that the method prints for a row: each non-empty expression as it stands in
  the row and, when its evaluation fails, the report of the failure after it.
\<close>

definition printed :: "(string \<Rightarrow> string + 'v) \<Rightarrow> BoardSize \<Rightarrow> string list \<Rightarrow> string list" where
  "printed ev board exprs =
     concat (map (\<lambda>e. if e = [] then []
                      else e # (case ev (substitute board e) of
                                  Inl m \<Rightarrow> [error_line (substitute board e) m]
                                | Inr v \<Rightarrow> [])) exprs)"


section \<open>Expressions written out, and the grammar of the specification\<close>










section \<open>Properties of the loop\<close>

lemma loop_body_panel [simp]: "panel (loop_body ev f e) = panel f"
  by (simp add: loop_body_def Let_def split: sum.splits)

lemma loop_body_self [simp]: "self (loop_body ev f e) = self f"
  by (simp add: loop_body_def Let_def split: sum.splits)

lemma for_loop_panel [simp]: "panel (for_loop ev f es) = panel f"
  by (induction es arbitrary: f) simp_all

lemma for_loop_self [simp]: "self (for_loop ev f es) = self f"
  by (induction es arbitrary: f) simp_all

lemma resolved_Nil [simp]: "resolved ev b [] = []"
  by (simp add: resolved_def)

lemma resolved_Cons:
  "resolved ev b (e # es) =
     (if e = [] then [] else case ev (substitute b e) of Inl m \<Rightarrow> [] | Inr v \<Rightarrow> [v])
     @ resolved ev b es"
  by (simp add: resolved_def)

lemma resolved_append [simp]: "resolved ev b (xs @ ys) = resolved ev b xs @ resolved ev b ys"
  by (simp add: resolved_def)



lemma printed_Nil [simp]: "printed ev b [] = []"
  by (simp add: printed_def)


lemma printed_append [simp]: "printed ev b (xs @ ys) = printed ev b xs @ printed ev b ys"
  by (simp add: printed_def)



lemma for_loop_append: "for_loop ev f (xs @ ys) = for_loop ev (for_loop ev f xs) ys"
  by (induction xs arbitrary: f) simp_all




lemma loop_body_empty: "loop_body ev f [] = f"
  by (simp add: loop_body_def)

lemma foldl_snoc: "foldl (\<lambda>cs c. cs @ [c]) a xs = a @ xs"
  by (induction xs arbitrary: a) simp_all

lemma init_long:
  assumes "11 \<le> length row"
  shows "QltMachineRow_init (drop 1 row) = Inr (row_of_columns row)"
proof -
  from assms obtain c0 c1 c2 c3 c4 c5 c6 c7 c8 c9 c10 rest where
    "row = c0 # c1 # c2 # c3 # c4 # c5 # c6 # c7 # c8 # c9 # c10 # rest"
    by (auto simp: Suc_le_length_iff eval_nat_numeral)
  then show ?thesis by (simp add: row_of_columns_def foldl_snoc)
qed

lemma init_short:
  assumes "length args < 10"
  shows "QltMachineRow_init args = Inl TypeError"
  using assms by (cases args rule: QltMachineRow_init.cases) simp_all

lemma decode_body_cases:
  "decode_body st i row =
     (if 4 \<le> i \<and> 11 \<le> length row then st\<lparr>qlt_rows := qlt_rows st @ [row_of_columns row]\<rparr>
      else if 4 \<le> i \<and> length row = 10 then st\<lparr>reports := reports st @ [(i, TypeError)]\<rparr>
      else st)"
proof -
  consider "i < 4 \<or> length row < 10" | "4 \<le> i" "length row = 10" | "4 \<le> i" "11 \<le> length row"
    by linarith
  then show ?thesis
  proof cases
    case 1
    then show ?thesis by (auto simp: decode_body_def)
  next
    case 2
    then have "QltMachineRow_init (drop 1 row) = Inl TypeError"
      by (intro init_short) simp
    with 2 show ?thesis by (simp add: decode_body_def del: One_nat_def)
  next
    case 3
    then have "QltMachineRow_init (drop 1 row) = Inr (row_of_columns row)"
      by (intro init_long)
    with 3 show ?thesis by (simp add: decode_body_def del: One_nat_def)
  qed
qed

lemma decode_loop_rows:
  "qlt_rows (decode_loop st i rows) =
     qlt_rows st @ map row_of_columns (filter (\<lambda>row. 11 \<le> length row) (drop (4 - i) rows))"
proof (induction rows arbitrary: st i)
  case Nil show ?case by simp
next
  case (Cons row rows)
  show ?case
  proof (cases "4 \<le> i")
    case True
    then show ?thesis by (simp add: Cons.IH decode_body_cases)
  next
    case False
    then have "4 - i = Suc (4 - Suc i)" by simp
    with False show ?thesis by (simp add: Cons.IH decode_body_cases)
  qed
qed

lemma decode_rows:
  "qlt_rows (decode decoded_data) =
     map row_of_columns (filter (\<lambda>row. 11 \<le> length row) (drop 4 decoded_data))"
  by (simp add: decode_def decode_loop_rows)




lemma extends_Returns: "extends_py_eval ev \<Longrightarrow> py_eval s = Returns v \<Longrightarrow> ev s = Inr v"
  unfolding extends_py_eval_def by (erule_tac x = s in allE) simp

lemma extends_Raises: "extends_py_eval ev \<Longrightarrow> py_eval s = Raises x \<Longrightarrow> isl (ev s)"
  unfolding extends_py_eval_def by (erule_tac x = s in allE) simp

lemma extends_known_eval: "extends_py_eval known_eval"
  by (simp add: extends_py_eval_def known_eval_def split: outcome.splits)

section \<open>Claims about calculate\_coordinates\<close>



lemma substitute_100: "substitute board ''100'' = ''100''"
  by (simp add: substitute_def strip_def dquote_def)

lemma substitute_50: "substitute board ''50'' = ''50''"
  by (simp add: substitute_def strip_def dquote_def)

lemma py_eval_100: "py_eval ''100'' = Returns (PyInt 100)"
  by code_simp

lemma py_eval_50: "py_eval ''50'' = Returns (PyInt 50)"
  by code_simp

lemma resolved_empty_dropped: "resolved ev b (xs @ [] # ys) = resolved ev b (xs @ ys)"
  by (simp add: resolved_Cons)

text \<open>
  C4. An empty expression changes nothing: the loop over a row with an empty expression
  ends in the state of the loop over the row without it. For the expressions
  \<^verbatim>\<open>"100"\<close>, \<^verbatim>\<open>""\<close>, \<^verbatim>\<open>"50"\<close> the buffer ends with the two values
  100 and 50, and no triple is returned.
\<close>

theorem empty_slot_drop:
  "for_loop ev f (xs @ [] # ys) = for_loop ev f (xs @ ys)
   \<and> (extends_py_eval ev \<and> coordinates row = [''100'', [], ''50'']
        \<longrightarrow> current_triplet (run ev row board) = [PyInt 100, PyInt 50]
          \<and> results (run ev row board) = []
          \<and> calculate_coordinates ev row board = [])"
proof (intro conjI impI)
  show "for_loop ev f (xs @ [] # ys) = for_loop ev f (xs @ ys)"
    by (simp add: for_loop_append loop_body_empty)
next
  assume a: "extends_py_eval ev \<and> coordinates row = [''100'', [], ''50'']"
  then have e100: "ev ''100'' = Inr (PyInt 100)" and e50: "ev ''50'' = Inr (PyInt 50)"
    by (simp_all add: extends_Returns py_eval_100 py_eval_50)
  from a have f: "run ev row board = for_loop ev (entry row board) [''100'', [], ''50'']"
    by (simp add: run_def)
  show "current_triplet (run ev row board) = [PyInt 100, PyInt 50]"
    unfolding f by (simp add: loop_body_def entry_def substitute_100 substitute_50 e100 e50)
  show r: "results (run ev row board) = []"
    unfolding f by (simp add: loop_body_def entry_def substitute_100 substitute_50 e100 e50)
  show "calculate_coordinates ev row board = []"
    using r by (simp add: calculate_coordinates_def)
qed

theorem empty_slot_drop_witness:
  "current_triplet (run known_eval
      \<lparr>coordinates = [''100'', [], ''50''], use = [], layer = [], diam = [],
       depth = [], rep_qty = [], repx = [], repy = []\<rparr> BoardSize_default)
     = [PyInt 100, PyInt 50]"
  using empty_slot_drop [of known_eval _ "[]" "[]"
      "\<lparr>coordinates = [''100'', [], ''50''], use = [], layer = [], diam = [],
        depth = [], rep_qty = [], repx = [], repy = []\<rparr>" BoardSize_default]
    extends_known_eval
  by simp







section \<open>Claims about the decoder\<close>

text \<open>
  C6. A raw row of at least eleven columns, at an index past the header, is mapped by
  position: after column 0 come use, layer, diam, depth, x, y, repQty, repX, repY, z.
  The coordinate expressions are x, y, z in this order (z moved up from its place
  after repY), followed by every further column in file order.
\<close>

theorem positional_mapping:
  assumes "4 \<le> i" and "11 \<le> length row"
  shows "QltMachineRow_init (drop 1 row)
       = Inr \<lparr>coordinates = [row ! 5, row ! 6, row ! 10] @ drop 11 row,
              use = row ! 1, layer = row ! 2, diam = row ! 3, depth = row ! 4,
              rep_qty = row ! 7, repx = row ! 8, repy = row ! 9\<rparr>
     \<and> qlt_rows (decode_body st i row)
       = qlt_rows st @ [\<lparr>coordinates = [row ! 5, row ! 6, row ! 10] @ drop 11 row,
              use = row ! 1, layer = row ! 2, diam = row ! 3, depth = row ! 4,
              rep_qty = row ! 7, repx = row ! 8, repy = row ! 9\<rparr>]"
  using assms init_long [of row] by (simp add: decode_body_cases row_of_columns_def)

theorem positional_mapping_witness:
  "qlt_rows (decode_body \<lparr>qlt_rows = [], reports = []\<rparr> 4
      [''1'', ''1'', ''Top'', ''M3'', ''Through'', ''Dim1/2'', ''50'', ''1'', ''0'', ''0'', [],
       ''Dim1/4'', ''60'', ''5''])
   = [\<lparr>coordinates = [''Dim1/2'', ''50'', [], ''Dim1/4'', ''60'', ''5''],
       use = ''1'', layer = ''Top'', diam = ''M3'', depth = ''Through'',
       rep_qty = ''1'', repx = ''0'', repy = ''0''\<rparr>]"
  using positional_mapping [of 4
      "[''1'', ''1'', ''Top'', ''M3'', ''Through'', ''Dim1/2'', ''50'', ''1'', ''0'', ''0'', [],
        ''Dim1/4'', ''60'', ''5'']" "\<lparr>qlt_rows = [], reports = []\<rparr>"]
  by simp

text \<open>
  C3. Past the header, a row yields a record exactly when it has at least ten columns
  after column 0. A row with nine such columns yields none; a row with exactly ten is
  accepted and its coordinate expressions are x, y and z alone.
\<close>

theorem column_count_gate:
  assumes "4 \<le> i" and "length (drop 1 row9) = 9" and "length (drop 1 row10) = 10"
  shows "(qlt_rows (decode_body st i row) \<noteq> qlt_rows st) = (10 \<le> length (drop 1 row))
       \<and> qlt_rows (decode_body st i row9) = qlt_rows st
       \<and> (\<exists>r. qlt_rows (decode_body st i row10) = qlt_rows st @ [r]
              \<and> coordinates r = [row10 ! 5, row10 ! 6, row10 ! 10])"
proof -
  from assms have l9: "length row9 = 10" and l10: "length row10 = 11" by simp_all
  have "(qlt_rows (decode_body st i row) \<noteq> qlt_rows st) = (10 \<le> length (drop 1 row))"
    using assms(1) by (auto simp: decode_body_cases)
  moreover have "qlt_rows (decode_body st i row9) = qlt_rows st"
    using assms(1) l9 by (simp add: decode_body_cases)
  moreover have "qlt_rows (decode_body st i row10) = qlt_rows st @ [row_of_columns row10]
      \<and> coordinates (row_of_columns row10) = [row10 ! 5, row10 ! 6, row10 ! 10]"
    using assms(1) l10 by (simp add: decode_body_cases row_of_columns_def)
  ultimately show ?thesis by blast
qed

theorem column_count_gate_witness:
  "qlt_rows (decode_body \<lparr>qlt_rows = [], reports = []\<rparr> 4
      [''1'', ''1'', ''Top'', ''M3'', ''Through'', ''Dim1/2'', ''50'', ''1'', ''0'', ''0'']) = []
   \<and> (\<exists>r. qlt_rows (decode_body \<lparr>qlt_rows = [], reports = []\<rparr> 4
      [''1'', ''1'', ''Top'', ''M3'', ''Through'', ''Dim1/2'', ''50'', ''1'', ''0'', ''0'', '''']) = [r]
        \<and> coordinates r = [''Dim1/2'', ''50'', ''''])"
  using column_count_gate [of 4
      "[''1'', ''1'', ''Top'', ''M3'', ''Through'', ''Dim1/2'', ''50'', ''1'', ''0'', ''0'']"
      "[''1'', ''1'', ''Top'', ''M3'', ''Through'', ''Dim1/2'', ''50'', ''1'', ''0'', ''0'', '''']"
      "\<lparr>qlt_rows = [], reports = []\<rparr>"]
  by simp

text \<open>
  C9. \<^verbatim>\<open>decode_tsv\<close> drops the empty rows before the decoding loop counts, so
  the four rows skipped as header are the first four non-empty rows of the file.
\<close>

theorem header_is_first_four_nonempty_rows:
  "qlt_rows (decode (decode_tsv reader))
     = map row_of_columns
         (filter (\<lambda>row. 11 \<le> length row) (drop 4 (filter (\<lambda>row. row \<noteq> []) reader)))"
  by (simp add: decode_rows decode_tsv_def)

theorem header_is_first_four_nonempty_rows_witness:
  "qlt_rows (decode (decode_tsv
      [[], [''h1''], [''h2''], [],
       [''k'', ''Use'', ''Layer'', ''Diam'', ''Depth'', ''x'', ''y'', ''RepQty'', ''Repx'', ''Repy'', ''z''],
       [''t'', ''Use'', ''Layer'', ''Diam'', ''Depth'', ''x'', ''y'', ''RepQty'', ''Repx'', ''Repy'', ''z''],
       [''1'', ''1'', ''Top'', ''M3'', ''Through'', ''10'', ''20'', ''1'', ''0'', ''0'', ''30'']]))
   = [\<lparr>coordinates = [''10'', ''20'', ''30''],
       use = ''1'', layer = ''Top'', diam = ''M3'', depth = ''Through'',
       rep_qty = ''1'', repx = ''0'', repy = ''0''\<rparr>]"
  using header_is_first_four_nonempty_rows [of
      "[[], [''h1''], [''h2''], [],
       [''k'', ''Use'', ''Layer'', ''Diam'', ''Depth'', ''x'', ''y'', ''RepQty'', ''Repx'', ''Repy'', ''z''],
       [''t'', ''Use'', ''Layer'', ''Diam'', ''Depth'', ''x'', ''y'', ''RepQty'', ''Repx'', ''Repy'', ''z''],
       [''1'', ''1'', ''Top'', ''M3'', ''Through'', ''10'', ''20'', ''1'', ''0'', ''0'', ''30'']]"]
  by (simp add: row_of_columns_def)

text \<open>
  C10. The representation of a row always raises AttributeError for the name
  \<^verbatim>\<open>x\<close>, which the constructor never assigns.
\<close>

theorem repr_raises_attribute_error:
  "repr r = Inl (AttributeError ''x'')"
  by (simp add: repr_def getattr_def instance_dict_def class_methods_def)

theorem repr_raises_attribute_error_witness:
  "\<exists>r. QltMachineRow_init
       [''1'', ''Top'', ''M3'', ''Through'', ''10'', ''20'', ''1'', ''0'', ''0'', ''30''] = Inr r
     \<and> repr r = Inl (AttributeError ''x'')"
  using repr_raises_attribute_error by simp

section \<open>Claims about the substitution and about the output\<close>



















section \<open>Reading back an expression that was written out\<close>





























section \<open>Claim about the evaluation of an expression\<close>




end
